theory Spec2Isabelle
  imports Main
begin

section \<open>The one-shot timer program of \<^verbatim>\<open>modular_boost_test/main.cpp\<close>\<close>

text \<open>
  The program creates an event-loop context and a timer of two seconds, prints a line,
  registers a completion handler for the timer, prints a second line, runs the event
  loop, prints a third line and returns 0.  The only code of the repository is
  \<^verbatim>\<open>main\<close> and the closure it passes to \<^verbatim>\<open>async_wait\<close>; the event loop
  and the timer belong to a library that is not part of the sources.
\<close>

subsection \<open>The outcome value handed to the completion handler\<close>

text \<open>
  An error code carries an integer value and a human-readable message.  The handler
  tests it with \<^verbatim>\<open>!ec\<close>, which holds exactly when the value is zero, and reads the
  text with \<^verbatim>\<open>ec.message()\<close>.
\<close>

record error_code =
  ec_value :: int
  ec_message :: string

definition ec_not :: "error_code \<Rightarrow> bool" where
  "ec_not ec = (ec_value ec = 0)"

subsection \<open>Observable events\<close>

text \<open>
  Everything the program does is recorded, in order, in a history.  \<open>Stdout s\<close> and
  \<open>Stderr s\<close> are one \<^verbatim>\<open><<\<close> insertion of the string \<open>s\<close> into
  \<^verbatim>\<open>std::cout\<close> or \<^verbatim>\<open>std::cerr\<close>; the other events mark the calls into
  the event-loop library (line numbers are those of main.cpp).
\<close>

datatype event =
    ContextCreated          \<comment> \<open>line 6: \<^verbatim>\<open>io_context io\<close>\<close>
  | TimerArmed nat          \<comment> \<open>line 9: the timer is constructed with a duration in seconds\<close>
  | WaitRegistered          \<comment> \<open>line 14: \<^verbatim>\<open>timer.async_wait(handler)\<close>\<close>
  | RunEntered              \<comment> \<open>line 25: \<^verbatim>\<open>io.run()\<close> is called\<close>
  | HandlerInvoked error_code
  | RunReturned             \<comment> \<open>line 25: \<^verbatim>\<open>io.run()\<close> returns\<close>
  | Stdout string
  | Stderr string

text \<open>
  The program has a single closure, the lambda of lines 14 to 20.  The event loop stores
  closures; here they are stored by name.
\<close>

datatype handler = TimerHandler

datatype exn = Exn string

record io_context =
  ops :: "handler list"     \<comment> \<open>the outstanding asynchronous operations\<close>

record steady_timer =
  expiry :: nat             \<comment> \<open>seconds after construction\<close>

record world =
  history :: "event list"
  io :: io_context
  timer :: "steady_timer option"

definition emit :: "event \<Rightarrow> world \<Rightarrow> world" where
  "emit e w = w\<lparr>history := history w @ [e]\<rparr>"

definition cout :: "string \<Rightarrow> world \<Rightarrow> world" where
  "cout s w = emit (Stdout s) w"

definition cerr :: "string \<Rightarrow> world \<Rightarrow> world" where
  "cerr s w = emit (Stderr s) w"

text \<open>What has been written to each stream: the insertions, and their concatenation.\<close>

fun stdout_writes :: "event list \<Rightarrow> string list" where
  "stdout_writes [] = []"
| "stdout_writes (Stdout s # es) = s # stdout_writes es"
| "stdout_writes (e # es) = stdout_writes es"

fun stderr_writes :: "event list \<Rightarrow> string list" where
  "stderr_writes [] = []"
| "stderr_writes (Stderr s # es) = s # stderr_writes es"
| "stderr_writes (e # es) = stderr_writes es"

definition stdout_of :: "event list \<Rightarrow> string" where
  "stdout_of h = concat (stdout_writes h)"

definition stderr_of :: "event list \<Rightarrow> string" where
  "stderr_of h = concat (stderr_writes h)"

fun handler_calls :: "event list \<Rightarrow> error_code list" where
  "handler_calls [] = []"
| "handler_calls (HandlerInvoked ec # es) = ec # handler_calls es"
| "handler_calls (e # es) = handler_calls es"

subsection \<open>The completion handler (main.cpp, lines 14 to 20)\<close>

text \<open>
  The closure is given the whole state of the program, although it captures nothing, so
  that what it leaves alone is a theorem and not a matter of its type.  Its result is a
  sum: \<open>Inl\<close> would be an exception leaving the closure.
\<close>

definition timer_handler :: "error_code \<Rightarrow> world \<Rightarrow> exn + world" where
  "timer_handler ec w =
     (if ec_not ec then
        Inr (cout ''Timer expired! Hello from Boost.Asio!\<newline>'' w)
      else
        Inr (cerr ''\<newline>'' (cerr (ec_message ec) (cerr ''Timer error: '' w))))"

fun invoke :: "handler \<Rightarrow> error_code \<Rightarrow> world \<Rightarrow> exn + world" where
  "invoke TimerHandler ec w = timer_handler ec w"

subsection \<open>The event-loop library\<close>

text \<open>
  The event-loop context, the timer and the loop-run call are library code that is not
  under src/; the records \<open>io_context\<close> and \<open>steady_timer\<close> above and the five
  operations below follow the spec's description of them.  The outcome \<open>ec\<close> with
  which the timer's wait resolves is decided outside the program and is a parameter of
  the run.
\<close>

text \<open>
  Modelled from the spec: the constructor of the event-loop context, missing from src/.
  The context is "created at program start" and "owns all pending asynchronous
  operations registered against it"; a new one owns none.
\<close>

definition io_context_ctor :: "world \<Rightarrow> world" where
  "io_context_ctor w = emit ContextCreated (w\<lparr>io := \<lparr>ops = []\<rparr>\<rparr>)"

text \<open>
  Modelled from the spec: the constructor of the timer, missing from src/.  The timer
  "holds a deadline (current time + fixed delay)" and its initial state is "Armed (set
  at construction)".
\<close>

definition steady_timer_ctor :: "nat \<Rightarrow> world \<Rightarrow> world" where
  "steady_timer_ctor secs w = emit (TimerArmed secs) (w\<lparr>timer := Some \<lparr>expiry = secs\<rparr>\<rparr>)"

text \<open>
  Modelled from the spec: the timer's \<^verbatim>\<open>async_wait\<close>, missing from src/.  It
  "registers a completion handler to run when the timer elapses or is
  cancelled/errored"; the handler is "invoked exactly once by the event loop when the
  timer resolves", so registering adds the operation to those the context owns and
  does nothing else.
\<close>

definition async_wait :: "handler \<Rightarrow> world \<Rightarrow> world" where
  "async_wait h w = emit WaitRegistered (w\<lparr>io := (io w)\<lparr>ops := ops (io w) @ [h]\<rparr>\<rparr>)"

text \<open>
  Modelled from the spec: the loop inside the context's \<^verbatim>\<open>run\<close>, missing from
  src/.  The event loop "waits for registered asynchronous operations to become ready
  and dispatches their completion handlers on the calling thread", each "with an outcome
  indicator", until "the loop has no outstanding asynchronous operations".  While an
  operation is outstanding the loop takes it off the queue and invokes its handler with
  the outcome.  A handler may register further operations, so the loop need not end
  (the result is then \<open>None\<close>); an exception leaving a handler leaves the loop.
\<close>

partial_function (option) dispatch :: "error_code \<Rightarrow> world \<Rightarrow> (exn + world) option" where
  "dispatch ec w =
     (case ops (io w) of
        [] \<Rightarrow> Some (Inr w)
      | h # hs \<Rightarrow>
          (case invoke h ec (emit (HandlerInvoked ec) (w\<lparr>io := (io w)\<lparr>ops := hs\<rparr>\<rparr>)) of
             Inl e \<Rightarrow> Some (Inl e)
           | Inr w' \<Rightarrow> dispatch ec w'))"

text \<open>
  Modelled from the spec: the context's \<^verbatim>\<open>run\<close>, missing from src/.  "The run
  call is the sole suspension point - it blocks the calling thread until the loop has
  no outstanding asynchronous operations".
\<close>

definition run :: "error_code \<Rightarrow> world \<Rightarrow> (exn + world) option" where
  "run ec w =
     (case dispatch ec (emit RunEntered w) of
        None \<Rightarrow> None
      | Some (Inl e) \<Rightarrow> Some (Inl e)
      | Some (Inr w') \<Rightarrow> Some (Inr (emit RunReturned w')))"

subsection \<open>The entry point (main.cpp, lines 5 to 29)\<close>

definition process_start :: world where
  "process_start = \<lparr>history = [], io = \<lparr>ops = []\<rparr>, timer = None\<rparr>"

text \<open>
  The result is \<open>None\<close> when the program does not return, \<open>Some (Inl e)\<close> when an
  exception leaves \<^verbatim>\<open>main\<close>, and \<open>Some (Inr (c, w))\<close> when it returns the exit
  code \<open>c\<close> in the final state \<open>w\<close>.  The program has no arguments and reads
  nothing; the outcome of the wait is all that can differ between two runs.  The value
  of \<^verbatim>\<open>io.run()\<close> is discarded, and the destructors of the timer and of the
  context, which run after line 28, write nothing.
\<close>

definition main :: "error_code \<Rightarrow> (exn + int \<times> world) option" where
  "main ec =
     (let w0 = io_context_ctor process_start;                \<comment> \<open>line 6\<close>
          w1 = steady_timer_ctor 2 w0;                        \<comment> \<open>line 9\<close>
          w2 = cout ''Starting timer...\<newline>'' w1;              \<comment> \<open>line 11\<close>
          w3 = async_wait TimerHandler w2;                    \<comment> \<open>lines 14 to 20\<close>
          w4 = cout ''Waiting for timer...\<newline>'' w3            \<comment> \<open>line 22\<close>
      in case run ec w4 of                                    \<comment> \<open>line 25\<close>
           None \<Rightarrow> None
         | Some (Inl e) \<Rightarrow> Some (Inl e)
         | Some (Inr w5) \<Rightarrow> Some (Inr (0, cout ''Done!\<newline>'' w5)))  \<comment> \<open>lines 27, 28\<close>"

text \<open>Projections of a run's result.\<close>

fun exit_code :: "(exn + int \<times> world) option \<Rightarrow> int option" where
  "exit_code (Some (Inr (c, w))) = Some c"
| "exit_code r = None"

fun final_history :: "(exn + int \<times> world) option \<Rightarrow> event list" where
  "final_history (Some (Inr (c, w))) = history w"
| "final_history r = []"

text \<open>
  Order in a history: the first occurrence of \<open>a\<close> is followed, later, by an
  occurrence of \<open>b\<close>.
\<close>

fun precedes :: "event \<Rightarrow> event \<Rightarrow> event list \<Rightarrow> bool" where
  "precedes a b [] = False"
| "precedes a b (e # es) = (if e = a then b \<in> set es else precedes a b es)"

fun is_console :: "event \<Rightarrow> bool" where
  "is_console (Stdout s) = True"
| "is_console (Stderr s) = True"
| "is_console e = False"

section \<open>The two runs\<close>

text \<open>
  The loop of the run call, on a queue that holds the program's one operation, invokes
  the handler once and stops.
\<close>

lemma dispatch_empty: "ops (io w) = [] \<Longrightarrow> dispatch ec w = Some (Inr w)"
  by (subst dispatch.simps) simp

lemma dispatch_single_ok:
  assumes "ops (io w) = [TimerHandler]" and "ec_not ec"
  shows "dispatch ec w =
     Some (Inr (w\<lparr>io := (io w)\<lparr>ops := []\<rparr>,
                  history := history w @
                    [HandlerInvoked ec, Stdout ''Timer expired! Hello from Boost.Asio!\<newline>'']\<rparr>))"
  using assms
  by (subst dispatch.simps) (simp add: timer_handler_def cout_def emit_def dispatch_empty)

lemma dispatch_single_failed:
  assumes "ops (io w) = [TimerHandler]" and "\<not> ec_not ec"
  shows "dispatch ec w =
     Some (Inr (w\<lparr>io := (io w)\<lparr>ops := []\<rparr>,
                  history := history w @
                    [HandlerInvoked ec, Stderr ''Timer error: '', Stderr (ec_message ec),
                     Stderr ''\<newline>'']\<rparr>))"
  using assms
  by (subst dispatch.simps) (simp add: timer_handler_def cerr_def emit_def dispatch_empty)

lemmas main_unfold =
  main_def run_def io_context_ctor_def steady_timer_ctor_def async_wait_def
  cout_def emit_def process_start_def

lemma main_ok:
  assumes "ec_not ec"
  shows "main ec = Some (Inr (0,
     \<lparr>history =
        [ContextCreated, TimerArmed 2, Stdout ''Starting timer...\<newline>'', WaitRegistered,
         Stdout ''Waiting for timer...\<newline>'', RunEntered, HandlerInvoked ec,
         Stdout ''Timer expired! Hello from Boost.Asio!\<newline>'',
         RunReturned, Stdout ''Done!\<newline>''],
      io = \<lparr>ops = []\<rparr>, timer = Some \<lparr>expiry = 2\<rparr>\<rparr>))"
  using assms by (simp add: main_unfold dispatch_single_ok)

lemma main_failed:
  assumes "\<not> ec_not ec"
  shows "main ec = Some (Inr (0,
     \<lparr>history =
        [ContextCreated, TimerArmed 2, Stdout ''Starting timer...\<newline>'', WaitRegistered,
         Stdout ''Waiting for timer...\<newline>'', RunEntered, HandlerInvoked ec,
         Stderr ''Timer error: '', Stderr (ec_message ec), Stderr ''\<newline>'',
         RunReturned, Stdout ''Done!\<newline>''],
      io = \<lparr>ops = []\<rparr>, timer = Some \<lparr>expiry = 2\<rparr>\<rparr>))"
  using assms by (simp add: main_unfold dispatch_single_failed)

text \<open>The projections of a history distribute over concatenation.\<close>

lemma handler_calls_append: "handler_calls (xs @ ys) = handler_calls xs @ handler_calls ys"
  by (induction xs rule: handler_calls.induct) simp_all

lemma stdout_writes_append: "stdout_writes (xs @ ys) = stdout_writes xs @ stdout_writes ys"
  by (induction xs rule: stdout_writes.induct) simp_all

lemma stderr_writes_append: "stderr_writes (xs @ ys) = stderr_writes xs @ stderr_writes ys"
  by (induction xs rule: stderr_writes.induct) simp_all

section \<open>The claims\<close>

text \<open>
  C4.  For every run, whether the timer fires or the wait resolves with an error, the
  program returns, no exception leaves it, and its exit code is 0.
\<close>

theorem C4_exit_code_zero: "\<exists>w. main ec = Some (Inr (0, w))"
  by (cases "ec_not ec") (simp_all add: main_ok main_failed)

text \<open>
  C1.  On the success path (the wait resolves without error) the program writes to
  standard output exactly the four lines "Starting timer...", "Waiting for timer...",
  "Timer expired! Hello from Boost.Asio!" and "Done!", in that order, each ended by a
  newline, and nothing else.
\<close>

theorem C1_success_stdout:
  assumes "ec_not ec"
  shows "stdout_writes (final_history (main ec)) =
           [''Starting timer...\<newline>'', ''Waiting for timer...\<newline>'',
            ''Timer expired! Hello from Boost.Asio!\<newline>'', ''Done!\<newline>'']
       \<and> stdout_of (final_history (main ec)) =
           ''Starting timer...\<newline>Waiting for timer...\<newline>Timer expired! Hello from Boost.Asio!\<newline>Done!\<newline>''"
  using assms by (simp add: main_ok stdout_of_def)

theorem C1_success_stdout_witness:
  "ec_not \<lparr>ec_value = 0, ec_message = ''Success''\<rparr>
   \<and> stdout_writes (final_history (main \<lparr>ec_value = 0, ec_message = ''Success''\<rparr>)) =
           [''Starting timer...\<newline>'', ''Waiting for timer...\<newline>'',
            ''Timer expired! Hello from Boost.Asio!\<newline>'', ''Done!\<newline>'']"
proof -
  have ok: "ec_not \<lparr>ec_value = 0, ec_message = ''Success''\<rparr>"
    by (simp add: ec_not_def)
  from C1_success_stdout [OF ok] ok show ?thesis by simp
qed

text \<open>
  C2.  In every run the completion handler is invoked exactly once, with the outcome of
  the wait, and that invocation lies between the call of the loop-run operation and its
  return; when the run call has returned no operation is outstanding.
\<close>

theorem C2_handler_exactly_once:
  "\<exists>w. main ec = Some (Inr (0, w))
       \<and> handler_calls (history w) = [ec]
       \<and> precedes RunEntered (HandlerInvoked ec) (history w)
       \<and> precedes (HandlerInvoked ec) RunReturned (history w)
       \<and> ops (io w) = []"
  by (cases "ec_not ec") (simp_all add: main_ok main_failed)

text \<open>
  C3.  In every run the exit code is 0 and the last line on standard output is "Done!".
  When the wait resolves with an error, standard error receives the three insertions
  "Timer error: ", the error's message and a newline, that is the one line
  "Timer error: <message>"; in every other run standard error receives nothing.  On
  every outcome and in every state the handler returns normally: no exception leaves
  it.
\<close>

theorem C3_error_reported:
  "exit_code (main ec) = Some 0
   \<and> stderr_writes (final_history (main ec)) =
       (if ec_not ec then [] else [''Timer error: '', ec_message ec, ''\<newline>''])
   \<and> stderr_of (final_history (main ec)) =
       (if ec_not ec then [] else ''Timer error: '' @ ec_message ec @ ''\<newline>'')
   \<and> last (stdout_writes (final_history (main ec))) = ''Done!\<newline>''
   \<and> (\<exists>w'. timer_handler ec w = Inr w')"
  by (cases "ec_not ec") (simp_all add: main_ok main_failed stderr_of_def timer_handler_def)

text \<open>
  C5, as amended.  The entry point first creates the event-loop context, with no
  operation outstanding, and constructs the timer with its duration of 2 seconds; only
  then does it print the "starting" message, register the completion handler, print
  the "waiting" message and call the loop-run operation, which returns when no
  operation is outstanding.
\<close>

theorem C5_startup_order:
  "ops (io (io_context_ctor w0)) = []
   \<and> (\<exists>w. main ec = Some (Inr (0, w))
         \<and> take 6 (history w) =
             [ContextCreated, TimerArmed 2, Stdout ''Starting timer...\<newline>'',
              WaitRegistered, Stdout ''Waiting for timer...\<newline>'', RunEntered]
         \<and> timer w = Some \<lparr>expiry = 2\<rparr>
         \<and> precedes RunEntered RunReturned (history w)
         \<and> ops (io w) = [])"
  by (cases "ec_not ec") (simp_all add: main_ok main_failed io_context_ctor_def emit_def)

text \<open>
  C5 as the spec states it puts the "starting" message before the arming of the timer.
  In the run whose wait succeeds the timer is armed first: its construction (line 9)
  comes before the first insertion into standard output (line 11).
\<close>

theorem C5_order_counterexample:
  "precedes (TimerArmed 2) (Stdout ''Starting timer...\<newline>'')
     (final_history (main \<lparr>ec_value = 0, ec_message = ''Success''\<rparr>))
   \<and> \<not> precedes (Stdout ''Starting timer...\<newline>'') (TimerArmed 2)
     (final_history (main \<lparr>ec_value = 0, ec_message = ''Success''\<rparr>))"
  by (simp add: main_ok ec_not_def)

text \<open>
  C7.  Whatever outcome the handler receives and in whatever state it is invoked, it
  returns normally and the state it leaves differs from the one it found only by
  insertions into standard output or standard error, at least one of them, appended to
  the history: the queue of outstanding operations and the timer are unchanged, so
  nothing is scheduled and the timer is not armed again.
\<close>

theorem C7_handler_frame:
  "\<exists>evs. timer_handler ec w = Inr (w\<lparr>history := history w @ evs\<rparr>)
         \<and> evs \<noteq> [] \<and> list_all is_console evs
         \<and> io (w\<lparr>history := history w @ evs\<rparr>) = io w
         \<and> timer (w\<lparr>history := history w @ evs\<rparr>) = timer w"
proof (cases "ec_not ec")
  case True
  then have "timer_handler ec w =
      Inr (w\<lparr>history := history w @ [Stdout ''Timer expired! Hello from Boost.Asio!\<newline>'']\<rparr>)"
    by (simp add: timer_handler_def cout_def emit_def)
  then show ?thesis by (intro exI [of _ "[Stdout ''Timer expired! Hello from Boost.Asio!\<newline>'']"]) simp
next
  case False
  then have "timer_handler ec w =
      Inr (w\<lparr>history := history w @
             [Stderr ''Timer error: '', Stderr (ec_message ec), Stderr ''\<newline>'']\<rparr>)"
    by (simp add: timer_handler_def cerr_def emit_def)
  then show ?thesis
    by (intro exI [of _ "[Stderr ''Timer error: '', Stderr (ec_message ec), Stderr ''\<newline>'']"]) simp
qed

text \<open>
  C8.  The program takes no input but the outcome of the wait, and every run starts
  from the same state.  Two runs that take the same branch (both succeed, or both fail
  with the same error message) write the same insertions to standard output and to
  standard error and have the same exit code.
\<close>

theorem C8_deterministic:
  assumes "ec_not ec1 = ec_not ec2"
    and "\<not> ec_not ec1 \<Longrightarrow> ec_message ec1 = ec_message ec2"
  shows "stdout_writes (final_history (main ec1)) = stdout_writes (final_history (main ec2))
       \<and> stderr_writes (final_history (main ec1)) = stderr_writes (final_history (main ec2))
       \<and> exit_code (main ec1) = exit_code (main ec2)"
proof (cases "ec_not ec1")
  case True
  with assms(1) have "ec_not ec2" by simp
  with True show ?thesis by (simp add: main_ok)
next
  case False
  with assms have "\<not> ec_not ec2" and "ec_message ec1 = ec_message ec2" by simp_all
  with False show ?thesis by (simp add: main_failed)
qed

theorem C8_deterministic_witness:
  "stdout_writes (final_history (main \<lparr>ec_value = 125, ec_message = ''Operation canceled''\<rparr>)) =
     stdout_writes (final_history (main \<lparr>ec_value = 995, ec_message = ''Operation canceled''\<rparr>))
   \<and> stderr_writes (final_history (main \<lparr>ec_value = 125, ec_message = ''Operation canceled''\<rparr>)) =
     stderr_writes (final_history (main \<lparr>ec_value = 995, ec_message = ''Operation canceled''\<rparr>))
   \<and> stderr_writes (final_history (main \<lparr>ec_value = 125, ec_message = ''Operation canceled''\<rparr>)) =
     [''Timer error: '', ''Operation canceled'', ''\<newline>'']
   \<and> exit_code (main \<lparr>ec_value = 125, ec_message = ''Operation canceled''\<rparr>) =
     exit_code (main \<lparr>ec_value = 995, ec_message = ''Operation canceled''\<rparr>)"
proof -
  have branch: "ec_not \<lparr>ec_value = 125, ec_message = ''Operation canceled''\<rparr> =
      ec_not \<lparr>ec_value = 995, ec_message = ''Operation canceled''\<rparr>"
    by (simp add: ec_not_def)
  have msg: "ec_message \<lparr>ec_value = 125, ec_message = ''Operation canceled''\<rparr> =
      ec_message \<lparr>ec_value = 995, ec_message = ''Operation canceled''\<rparr>"
    by simp
  have failed: "\<not> ec_not \<lparr>ec_value = 125, ec_message = ''Operation canceled''\<rparr>"
    by (simp add: ec_not_def)
  from C8_deterministic [OF branch msg] main_failed [OF failed]
  show ?thesis by simp
qed

text \<open>
  C9.  In every run exactly one of the handler's two messages is emitted: the success
  line appears on standard output, once, exactly when the outcome is no error, and the
  line "Timer error: <message>" makes up standard error exactly when the outcome is an
  error; otherwise standard error is empty.
\<close>

theorem C9_exactly_one_message:
  "count_list (stdout_writes (final_history (main ec)))
       ''Timer expired! Hello from Boost.Asio!\<newline>'' = (if ec_not ec then 1 else 0)
   \<and> (stderr_of (final_history (main ec)) = ''Timer error: '' @ ec_message ec @ ''\<newline>'')
       = (\<not> ec_not ec)
   \<and> (stderr_of (final_history (main ec)) = []) = ec_not ec"
  by (cases "ec_not ec") (simp_all add: main_ok main_failed stderr_of_def)

text \<open>
  C10.  Registering the wait appends the operation to the context's queue and neither
  invokes a handler nor writes to a stream.  In every run the handler's invocation comes
  after the call of the loop-run operation and before its return, and what precedes it
  on standard output is exactly "Starting timer..." and "Waiting for timer...", with
  nothing yet on standard error.
\<close>

theorem C10_handler_only_inside_run:
  "handler_calls (history (async_wait h w)) = handler_calls (history w)
   \<and> stdout_writes (history (async_wait h w)) = stdout_writes (history w)
   \<and> stderr_writes (history (async_wait h w)) = stderr_writes (history w)
   \<and> ops (io (async_wait h w)) = ops (io w) @ [h]
   \<and> (\<exists>w' pre post. main ec = Some (Inr (0, w'))
         \<and> history w' = pre @ HandlerInvoked ec # post
         \<and> handler_calls pre = [] \<and> handler_calls post = []
         \<and> last pre = RunEntered \<and> RunReturned \<in> set post
         \<and> stdout_writes pre = [''Starting timer...\<newline>'', ''Waiting for timer...\<newline>'']
         \<and> stderr_writes pre = [])"
proof -
  let ?pre = "[ContextCreated, TimerArmed 2, Stdout ''Starting timer...\<newline>'',
               WaitRegistered, Stdout ''Waiting for timer...\<newline>'', RunEntered]"
  have reg: "handler_calls (history (async_wait h w)) = handler_calls (history w)
     \<and> stdout_writes (history (async_wait h w)) = stdout_writes (history w)
     \<and> stderr_writes (history (async_wait h w)) = stderr_writes (history w)
     \<and> ops (io (async_wait h w)) = ops (io w) @ [h]"
    by (simp add: async_wait_def emit_def handler_calls_append stdout_writes_append
        stderr_writes_append)
  have "\<exists>w' post. main ec = Some (Inr (0, w'))
         \<and> history w' = ?pre @ HandlerInvoked ec # post
         \<and> handler_calls post = [] \<and> RunReturned \<in> set post"
    by (cases "ec_not ec") (simp_all add: main_ok main_failed)
  then obtain w' post where run: "main ec = Some (Inr (0, w'))"
      "history w' = ?pre @ HandlerInvoked ec # post"
      "handler_calls post = []" "RunReturned \<in> set post"
    by blast
  have "main ec = Some (Inr (0, w'))
         \<and> history w' = ?pre @ HandlerInvoked ec # post
         \<and> handler_calls ?pre = [] \<and> handler_calls post = []
         \<and> last ?pre = RunEntered \<and> RunReturned \<in> set post
         \<and> stdout_writes ?pre = [''Starting timer...\<newline>'', ''Waiting for timer...\<newline>'']
         \<and> stderr_writes ?pre = []"
    using run by simp
  then have "\<exists>w' pre post. main ec = Some (Inr (0, w'))
         \<and> history w' = pre @ HandlerInvoked ec # post
         \<and> handler_calls pre = [] \<and> handler_calls post = []
         \<and> last pre = RunEntered \<and> RunReturned \<in> set post
         \<and> stdout_writes pre = [''Starting timer...\<newline>'', ''Waiting for timer...\<newline>'']
         \<and> stderr_writes pre = []"
    by blast
  with reg show ?thesis by simp
qed

end
